theory Spec2Isabelle
  imports Complex_Main "HOL-Library.List_Lexorder" "HOL-Library.Char_ord" "HOL-Library.AList"
begin

section \<open>Python values and exceptions\<close>

text \<open>
  The exceptions the modelled functions can raise. A function that can raise returns
  \<open>py_error + 'a\<close>, with \<open>Inl\<close> for the exception.
\<close>

datatype py_error =
    UnboundLocalError
  | OverflowError
  | ZeroDivisionError
  | TypeError
  | ValueError
  | KeyError
  | IndexError
  | RecursionError
  | NameError string

text \<open>
  A positive normal binary64 number \<open>Double m e\<close> stands for \<open>m * 2 ^ (e - 52)\<close> with
  \<open>2 ^ 52 \<le> m < 2 ^ 53\<close> and \<open>e \<le> 1023\<close>. These are the only floats
  \<open>num_pairs_in_list\<close> computes with.
\<close>

datatype double = Double int int

datatype py_num = PyInt int | PyFloat double

definition double_val :: "double \<Rightarrow> rat" where
  "double_val d = (case d of Double m e \<Rightarrow>
     if 52 \<le> e then of_int (m * 2 ^ nat (e - 52)) else of_int m / of_int (2 ^ nat (52 - e)))"

definition py_val :: "py_num \<Rightarrow> rat" where
  "py_val v = (case v of PyInt i \<Rightarrow> of_int i | PyFloat d \<Rightarrow> double_val d)"

section \<open>Correctly rounded division\<close>

text \<open>\<open>int.bit_length\<close>.\<close>

function bit_length :: "int \<Rightarrow> nat" where
  "bit_length n = (if n \<le> 0 then 0 else Suc (bit_length (n div 2)))"
  by pat_completeness auto
termination
  by (relation "measure nat") auto

declare bit_length.simps [simp del]

text \<open>The integer nearest to \<open>p / q\<close> (for \<open>q > 0\<close>), a tie going to the even one.\<close>

definition round_half_even :: "int \<Rightarrow> int \<Rightarrow> int" where
  "round_half_even p q =
     (let f = p div q; r = p mod q
      in if 2 * r < q then f
         else if q < 2 * r then f + 1
         else if even f then f else f + 1)"

text \<open>The binary exponent of \<open>p / q\<close> for \<open>p, q > 0\<close>: the \<open>e\<close> with \<open>2 ^ e \<le> p / q < 2 ^ (e + 1)\<close>.\<close>

definition floor_log2 :: "int \<Rightarrow> int \<Rightarrow> int" where
  "floor_log2 p q =
     (let d = int (bit_length p) - int (bit_length q)
      in if (if 0 \<le> d then q * 2 ^ nat d \<le> p else q \<le> p * 2 ^ nat (- d)) then d else d - 1)"

text \<open>
  The binary64 number nearest to \<open>p / q\<close> for \<open>p, q > 0\<close> (round to nearest, ties to even),
  or \<open>OverflowError\<close> when it is beyond the largest finite one. This is what CPython's
  \<open>int / int\<close> and \<open>float(int)\<close> compute. Results below the normal range do not occur
  in the functions modelled here and are not treated.
\<close>

definition nearest_double :: "int \<Rightarrow> int \<Rightarrow> py_error + double" where
  "nearest_double p q =
     (let e = floor_log2 p q;
          m = (if e \<le> 52 then round_half_even (p * 2 ^ nat (52 - e)) q
               else round_half_even p (q * 2 ^ nat (e - 52)));
          e' = (if m = 2 ^ 53 then e + 1 else e);
          m' = (if m = 2 ^ 53 then 2 ^ 52 else m)
      in if 1023 < e' then Inl OverflowError else Inr (Double m' e'))"

text \<open>\<open>a / b\<close> on two positive ints: true division.\<close>

definition int_truediv :: "int \<Rightarrow> int \<Rightarrow> py_error + double" where
  "int_truediv a b = (if b = 0 then Inl ZeroDivisionError else nearest_double a b)"

text \<open>
  \<open>a / b\<close> with \<open>a\<close> a float and \<open>b\<close> a positive int: \<open>b\<close> is converted to a float
  first, then the two floats are divided and the quotient is rounded.
\<close>

definition float_truediv_int :: "double \<Rightarrow> int \<Rightarrow> py_error + double" where
  "float_truediv_int a b =
     (if b = 0 then Inl ZeroDivisionError
      else case nearest_double b 1 of
        Inl err \<Rightarrow> Inl err
      | Inr (Double mb eb) \<Rightarrow>
          (case a of Double ma ea \<Rightarrow>
             if eb \<le> ea then nearest_double (ma * 2 ^ nat (ea - eb)) mb
             else nearest_double ma (mb * 2 ^ nat (eb - ea))))"

section \<open>The pair count of a branch\<close>

text \<open>\<open>math.factorial\<close> on a nonnegative int.\<close>

definition factorial :: "int \<Rightarrow> int" where
  "factorial n = fact (nat n)"

text \<open>
  \<open>num_pairs_in_list\<close> (the same text in \<open>tree.py\<close> and in
  \<open>quantum_model_learning_agent.py\<close>). The \<open>try\<close> block computes
  \<open>a = math.factorial(n) / math.factorial(k)\<close> and \<open>b = math.factorial(n - k)\<close>;
  its \<open>except BaseException\<close> prints a message and falls through, so that
  \<open>return a / b\<close> then reads the unbound local \<open>a\<close>.
\<close>

definition num_pairs_in_list :: "int \<Rightarrow> py_error + py_num" where
  "num_pairs_in_list num_models =
     (if num_models \<le> 1 then Inr (PyInt 0)
      else
        let n = num_models; k = 2 in
        case int_truediv (factorial n) (factorial k) of
          Inl err \<Rightarrow> Inl UnboundLocalError
        | Inr a \<Rightarrow>
            (case float_truediv_int a (factorial (n - k)) of
               Inl err \<Rightarrow> Inl err
             | Inr r \<Rightarrow> Inr (PyFloat r)))"

section \<open>Model names: strings\<close>

text \<open>
  \<open>str.count\<close>: the number of non-overlapping occurrences of \<open>sub\<close> in \<open>s\<close>, scanning from
  the left (for the empty \<open>sub\<close>, \<open>len(s) + 1\<close>).
\<close>

function count_str :: "string \<Rightarrow> string \<Rightarrow> nat" where
  "count_str s sub =
     (if sub = [] then Suc (length s)
      else if length s < length sub then 0
      else if take (length sub) s = sub then Suc (count_str (drop (length sub) s) sub)
      else count_str (tl s) sub)"
  by pat_completeness auto
termination
  by (relation "measure (\<lambda>(s, sub). length s)") (auto simp: neq_Nil_conv)

declare count_str.simps [simp del]

text \<open>
  \<open>str.split(sep)\<close>: the pieces of \<open>s\<close> between the non-overlapping occurrences of \<open>sep\<close>,
  scanning from the left. Python raises \<open>ValueError\<close> on an empty separator; \<open>alph\<close> never
  passes one (lemma \<open>alph_separator\<close>), and the model returns \<open>[s]\<close> there. The case of an
  empty list of pieces cannot occur (lemma \<open>split_str_length\<close>).
\<close>

function split_str :: "string \<Rightarrow> string \<Rightarrow> string list" where
  "split_str s sep =
     (if sep = [] \<or> length s < length sep then [s]
      else if take (length sep) s = sep then [] # split_str (drop (length sep) s) sep
      else (case split_str (tl s) sep of
              [] \<Rightarrow> [[hd s]]
            | h # t \<Rightarrow> (hd s # h) # t))"
  by pat_completeness auto
termination
  by (relation "measure (\<lambda>(s, sep). length s)") (auto simp: neq_Nil_conv)

declare split_str.simps [simp del]

text \<open>\<open>sep.join(xs)\<close>.\<close>

fun join_str :: "string \<Rightarrow> string list \<Rightarrow> string" where
  "join_str sep [] = []"
| "join_str sep [x] = x"
| "join_str sep (x # y # ys) = x @ sep @ join_str sep (y # ys)"

lemma count_str_pos_length: "sub \<noteq> [] \<Longrightarrow> 0 < count_str s sub \<Longrightarrow> length sub \<le> length s"
  by (subst (asm) count_str.simps) (auto split: if_splits)

text \<open>
  \<open>find_max_letter(string, letter)\<close>: the loop
  \<open>while string.count(letter_str + letter) > 0: letter_str = letter_str + letter\<close>,
  started at the empty string; it returns \<open>(len(letter_str), letter_str)\<close>. The letter is
  always one character (\<open>"T"\<close>, \<open>"P"\<close> or \<open>"M"\<close>).
\<close>

function find_max_loop :: "string \<Rightarrow> char \<Rightarrow> string \<Rightarrow> string" where
  "find_max_loop s letter letter_str =
     (if 0 < count_str s (letter_str @ [letter])
      then find_max_loop s letter (letter_str @ [letter])
      else letter_str)"
  by pat_completeness auto
termination
  apply (relation "measure (\<lambda>(s, letter, letter_str). length s - length letter_str)")
   apply simp
  apply (auto dest!: count_str_pos_length [rotated])
  done

declare find_max_loop.simps [simp del]

definition find_max_letter :: "string \<Rightarrow> char \<Rightarrow> nat \<times> string" where
  "find_max_letter s letter = (let letter_str = find_max_loop s letter [] in (length letter_str, letter_str))"


lemma split_str_length: "sep \<noteq> [] \<Longrightarrow> length (split_str s sep) = Suc (count_str s sep)"
proof (induction s sep rule: split_str.induct)
  case (1 s sep)
  show ?case
    using 1
    by (subst split_str.simps, subst count_str.simps) (auto split: list.splits)
qed

lemma split_str_total_length:
  "sep \<noteq> [] \<Longrightarrow> sum_list (map length (split_str s sep)) + count_str s sep * length sep = length s"
proof (induction s sep rule: split_str.induct)
  case (1 s sep)
  show ?case
  proof (cases "length s < length sep")
    case True
    then show ?thesis using 1(3)
      by (subst split_str.simps, subst count_str.simps) simp
  next
    case False
    show ?thesis
    proof (cases "take (length sep) s = sep")
      case True
      with False 1(1) 1(3) show ?thesis
        by (subst split_str.simps, subst count_str.simps) simp
    next
      case nt: False
      from False 1(3) have "s \<noteq> []" by auto
      with False nt 1(2) 1(3) show ?thesis
        by (subst split_str.simps, subst count_str.simps)
           (auto split: list.splits simp: neq_Nil_conv)
    qed
  qed
qed

lemma split_str_shorter:
  assumes "sep \<noteq> []" "0 < count_str s sep" "x \<in> set (split_str s sep)"
  shows "length x < length s"
proof -
  have "length x \<le> sum_list (map length (split_str s sep))"
    using assms(3) by (simp add: member_le_sum_list)
  moreover have "0 < count_str s sep * length sep" using assms by simp
  ultimately show ?thesis using split_str_total_length [OF assms(1), of s] by linarith
qed

lemma find_max_loop_occurs:
  "letter_str = [] \<or> 0 < count_str s letter_str \<Longrightarrow>
   find_max_loop s letter letter_str = [] \<or> 0 < count_str s (find_max_loop s letter letter_str)"
proof (induction s letter letter_str rule: find_max_loop.induct)
  case (1 s letter letter_str)
  then show ?case by (subst (1 2) find_max_loop.simps) auto
qed

lemma find_max_letter_occurs:
  "snd (find_max_letter s letter) \<noteq> [] \<Longrightarrow> 0 < count_str s (snd (find_max_letter s letter))"
  using find_max_loop_occurs [of "[]" s letter] by (auto simp: find_max_letter_def Let_def)

lemma fst_find_max_letter: "fst (find_max_letter s letter) = length (snd (find_max_letter s letter))"
  by (simp add: find_max_letter_def Let_def)

lemma alph_separator:
  assumes t: "t_str = snd (find_max_letter name CHR ''T'')"
    and p: "p_str = snd (find_max_letter name CHR ''P'')"
    and m: "m_str = snd (find_max_letter name CHR ''M'')"
    and nz: "\<not> (length p_str = 0 \<and> length t_str = 0)"
    and s: "string =
      (if length t_str < length p_str \<and> length m_str < length p_str then p_str
       else if length p_str \<le> length t_str then t_str
       else if length p_str \<le> length m_str then m_str
       else if length m_str < length t_str then t_str
       else m_str)"
  shows "string \<noteq> [] \<and> 0 < count_str name string"
proof -
  consider (P) "length t_str < length p_str \<and> length m_str < length p_str"
    | (T) "length p_str \<le> length t_str"
    | (M) "length t_str < length p_str" "length p_str \<le> length m_str"
    by linarith
  then show ?thesis
  proof cases
    case P
    then have "string = p_str" "p_str \<noteq> []" using s by auto
    then show ?thesis using find_max_letter_occurs [of name "CHR ''P''"] p by simp
  next
    case T
    then have "string = t_str" "t_str \<noteq> []" using s nz by auto
    then show ?thesis using find_max_letter_occurs [of name "CHR ''T''"] t by simp
  next
    case M
    then have "string = m_str" "m_str \<noteq> []" using s by auto
    then show ?thesis using find_max_letter_occurs [of name "CHR ''M''"] m by simp
  qed
qed

text \<open>
  \<open>alph(name)\<close> of \<open>database_framework.py\<close>, branch by branch. \<open>sorted\<close> on a list of
  strings is \<open>sort\<close> for the lexicographic order on character codes.
\<close>

function alph :: "string \<Rightarrow> string" where
  "alph name =
     (let t_max = fst (find_max_letter name CHR ''T'');
          t_str = snd (find_max_letter name CHR ''T'');
          p_max = fst (find_max_letter name CHR ''P'');
          p_str = snd (find_max_letter name CHR ''P'');
          m_max = fst (find_max_letter name CHR ''M'');
          m_str = snd (find_max_letter name CHR ''M'')
      in
      if p_max = 0 \<and> t_max = 0 \<and> p_max = 0 then name
      else
        let ltr = (if t_max < p_max \<and> m_max < p_max then CHR ''P''
                   else if p_max \<le> t_max then CHR ''T''
                   else if p_max \<le> m_max then CHR ''M''
                   else if m_max < t_max then CHR ''T''
                   else CHR ''M'');
            string = (if t_max < p_max \<and> m_max < p_max then p_str
                      else if p_max \<le> t_max then t_str
                      else if p_max \<le> m_max then m_str
                      else if m_max < t_max then t_str
                      else m_str);
            spread = split_str name string
        in
        if p_max = m_max \<and> t_max < p_max
        then join_str p_str (sort (map alph (split_str name p_str)))
        else if ltr = CHR ''P'' \<and> p_max = 1 then join_str string (sort spread)
        else if ltr = CHR ''P'' \<and> 1 < p_max
        then join_str string (map alph (sort (split_str name string)))
        else join_str string (map alph spread))"
  by pat_completeness auto
termination
proof (relation "measure length", goal_cases)
  case 1
  show ?case by simp
next
  case (2 name t_max t_str p_max p_str m_max m_str ltr string spread x)
  then have "p_str \<noteq> []" by (auto simp: fst_find_max_letter)
  with 2 show ?case
    by (auto intro!: split_str_shorter find_max_letter_occurs)
next
  case (3 name t_max t_str p_max p_str m_max m_str ltr string spread x)
  have tm: "t_max = length t_str" "p_max = length p_str" "m_max = length m_str"
    using 3(1-6) by (simp_all only: fst_find_max_letter)
  have nz: "\<not> (length p_str = 0 \<and> length t_str = 0)"
    using 3(7) unfolding tm by blast
  have s: "string =
      (if length t_str < length p_str \<and> length m_str < length p_str then p_str
       else if length p_str \<le> length t_str then t_str
       else if length p_str \<le> length m_str then m_str
       else if length m_str < length t_str then t_str
       else m_str)"
    using 3(9) unfolding tm .
  from alph_separator [OF 3(2) 3(4) 3(6) nz s] 3(14) show ?case
    by (auto intro: split_str_shorter)
next
  case (4 name t_max t_str p_max p_str m_max m_str ltr string spread x)
  have tm: "t_max = length t_str" "p_max = length p_str" "m_max = length m_str"
    using 4(1-6) by (simp_all only: fst_find_max_letter)
  have nz: "\<not> (length p_str = 0 \<and> length t_str = 0)"
    using 4(7) unfolding tm by blast
  have s: "string =
      (if length t_str < length p_str \<and> length m_str < length p_str then p_str
       else if length p_str \<le> length t_str then t_str
       else if length p_str \<le> length m_str then m_str
       else if length m_str < length t_str then t_str
       else m_str)"
    using 4(9) unfolding tm .
  from alph_separator [OF 4(2) 4(4) 4(6) nz s] 4(10,14) show ?case
    by (auto intro: split_str_shorter)
qed

declare alph.simps [simp del]

section \<open>Qubit count of a model name\<close>

definition str_in :: "string \<Rightarrow> string \<Rightarrow> bool" where
  "str_in sub s = (0 < count_str s sub)"

definition get_t_p_strings :: "string \<Rightarrow> string \<times> string \<times> nat \<times> nat" where
  "get_t_p_strings name =
     (let t_str = find_max_loop name CHR ''T'' [];
          p_str = find_max_loop name CHR ''P'' []
      in (t_str, p_str, length t_str, length p_str))"

definition verbose_naming_mechanism_separate_terms :: "string \<Rightarrow> string list" where
  "verbose_naming_mechanism_separate_terms name =
     (case get_t_p_strings name of (t_str, p_str, max_t, max_p) \<Rightarrow>
        if max_p \<le> max_t then [name] else split_str name p_str)"

definition get_constituent_names_from_name :: "string \<Rightarrow> string list" where
  "get_constituent_names_from_name name =
     (if list_ex (\<lambda>t. str_in t name) [''T'', ''P'', ''M'']
      then verbose_naming_mechanism_separate_terms name
      else split_str name ''+'')"

fun digits_value :: "string \<Rightarrow> int \<Rightarrow> int option" where
  "digits_value [] acc = Some acc"
| "digits_value (c # cs) acc =
     (let d = (of_char c :: nat)
      in if 48 \<le> d \<and> d \<le> 57 then digits_value cs (10 * acc + int (d - 48)) else None)"

definition py_int :: "string \<Rightarrow> py_error + int" where
  "py_int s = (if s = [] then Inl ValueError
               else case digits_value s 0 of None \<Rightarrow> Inl ValueError | Some n \<Rightarrow> Inr n)"

definition special_term :: "string \<Rightarrow> bool" where
  "special_term term' =
     (take 1 term' = ''h_'' \<or> str_in ''1Dising'' term' \<or> str_in ''Heis'' term' \<or> str_in ''nv'' term'
      \<or> str_in ''pauliSet'' term' \<or> str_in ''transverse'' term' \<or> str_in ''FH'' term')"

fun first_special_dim :: "string list \<Rightarrow> (py_error + int) option" where
  "first_special_dim [] = None"
| "first_special_dim (term' # rest) =
     (if special_term term'
      then (let terms = split_str term' ''_''; dim_term = last terms in Some (py_int (drop 1 dim_term)))
      else first_special_dim rest)"

definition get_num_qubits :: "string \<Rightarrow> py_error + int" where
  "get_num_qubits name =
     (case first_special_dim (get_constituent_names_from_name name) of
        Some r \<Rightarrow> r
      | None \<Rightarrow> Inr (int (length (find_max_loop name CHR ''T'' [])) + 1))"


section \<open>The agent's state\<close>

record model_row =
  Name :: string
  ModelID :: int
  row_branchID :: int
  Status :: string
  Completed :: bool
  BayesFactors :: "(int \<times> rat list) list"

record qmla =
  db :: "model_row list"
  model_lists :: "int \<rightharpoonup> string list"
  model_name_id_map :: "int \<rightharpoonup> string"
  true_model_name :: string
  TrueOpModelID :: "int option"
  NumModels :: int
  HighestModelID :: int
  HighestBranchID :: int
  BayesLower :: rat
  BayesUpper :: rat
  bayes_factor_pair_computed :: "(int \<times> int) list"
  BranchBayesComputed :: "int \<rightharpoonup> bool"
  NumModelsPerBranch :: "int \<rightharpoonup> int"
  NumModelPairsPerBranch :: "int \<rightharpoonup> py_num"
  BranchAllModelsLearned :: "int \<rightharpoonup> bool"
  BranchComparisonsComplete :: "int \<rightharpoonup> bool"
  Branchget_growth_rule :: "int \<rightharpoonup> string"
  BranchNumModelsPreComputed :: "int \<rightharpoonup> int"
  BranchModels :: "int \<rightharpoonup> string list"
  BranchPrecomputedModels :: "int \<rightharpoonup> string list"
  BranchModelIds :: "int \<rightharpoonup> int list"
  ModelsBranches :: "int \<rightharpoonup> int"
  BranchChampions :: "(int \<times> int) list"
  BranchChampsByNumQubits :: "string \<rightharpoonup> (int \<times> string list) list"
  ActiveBranchChampList :: "int list"
  branch_rankings :: "int \<rightharpoonup> int list"
  branch_bayes_points :: "int \<rightharpoonup> (int \<times> nat) list"
  ghost_branch_list :: "int list"
  branch_parents :: "int \<rightharpoonup> int"
  bayes_factors_db :: "int \<times> int \<rightharpoonup> rat"
  growth_rules_list :: "string list"
  jobs_enqueued :: nat

type_synonym worker = "nat \<Rightarrow> int \<times> int \<Rightarrow> rat option"

definition unique_model_pair_identifier :: "int \<Rightarrow> int \<Rightarrow> int \<times> int" where
  "unique_model_pair_identifier model_a_id model_b_id = (min model_a_id model_b_id, max model_a_id model_b_id)"

definition get_model_storage_instance_by_id :: "qmla \<Rightarrow> int \<Rightarrow> py_error + model_row" where
  "get_model_storage_instance_by_id st model_id =
     (case find (\<lambda>r. ModelID r = model_id) (db st) of None \<Rightarrow> Inl IndexError | Some r \<Rightarrow> Inr r)"

fun update_first :: "('a \<Rightarrow> bool) \<Rightarrow> ('a \<Rightarrow> 'a) \<Rightarrow> 'a list \<Rightarrow> 'a list" where
  "update_first P f [] = []"
| "update_first P f (x # xs) = (if P x then f x # xs else x # update_first P f xs)"

definition record_bayes_factor :: "int \<Rightarrow> int \<Rightarrow> rat \<Rightarrow> qmla \<Rightarrow> qmla" where
  "record_bayes_factor model_id other_id v st =
     st\<lparr>db := update_first (\<lambda>r. ModelID r = model_id)
        (\<lambda>r. r\<lparr>BayesFactors :=
           (case map_of (BayesFactors r) other_id of
              Some l \<Rightarrow> AList.update other_id (l @ [v]) (BayesFactors r)
            | None \<Rightarrow> AList.update other_id [v] (BayesFactors r))\<rparr>) (db st)\<rparr>"

definition update_model_record_id :: "int \<Rightarrow> string \<Rightarrow> qmla \<Rightarrow> qmla" where
  "update_model_record_id model_id new_value st =
     st\<lparr>db := map (\<lambda>r. if ModelID r = model_id then r\<lparr>Status := new_value\<rparr> else r) (db st)\<rparr>"

definition update_model_record_name :: "string \<Rightarrow> string \<Rightarrow> qmla \<Rightarrow> qmla" where
  "update_model_record_name name new_value st =
     st\<lparr>db := map (\<lambda>r. if Name r = name then r\<lparr>Status := new_value\<rparr> else r) (db st)\<rparr>"

definition processRemoteBayesPair :: "int \<Rightarrow> int \<Rightarrow> qmla \<Rightarrow> py_error + int \<times> qmla" where
  "processRemoteBayesPair a b st =
     (let bayes_threshold = BayesLower st;
          pair = unique_model_pair_identifier a b;
          lower_id = min a b;
          higher_id = max a b
      in case get_model_storage_instance_by_id st lower_id of
           Inl err \<Rightarrow> Inl err
         | Inr mod_low \<Rightarrow>
        (case get_model_storage_instance_by_id st higher_id of
           Inl err \<Rightarrow> Inl err
         | Inr mod_high \<Rightarrow>
        (case bayes_factors_db st pair of
           None \<Rightarrow> Inl UnboundLocalError
         | Some bayes_factor \<Rightarrow>
             let st1 = record_bayes_factor lower_id higher_id bayes_factor st
             in if bayes_factor = 0 then Inl ZeroDivisionError
                else
                  let st2 = record_bayes_factor higher_id lower_id (1 / bayes_factor) st1
                  in if bayes_threshold < bayes_factor then Inr (ModelID mod_low, st2)
                     else if bayes_threshold = 0 then Inl ZeroDivisionError
                     else if bayes_factor < 1 / bayes_threshold then Inr (ModelID mod_high, st2)
                     else Inl UnboundLocalError)))"

fun index_pairs :: "'a list \<Rightarrow> ('a \<times> 'a) list" where
  "index_pairs [] = []"
| "index_pairs (x # xs) = map (Pair x) (x # xs) @ index_pairs xs"

definition init_points :: "int list \<Rightarrow> (int \<times> nat) list" where
  "init_points ids = fold (\<lambda>m pts. AList.update m 0 pts) ids []"

fun compare_pairs ::
  "(int \<times> int) list \<Rightarrow> (int \<times> nat) list \<Rightarrow> qmla \<Rightarrow> py_error + (int \<times> nat) list \<times> qmla" where
  "compare_pairs [] models_points st = Inr (models_points, st)"
| "compare_pairs ((mod1, mod2) # rest) models_points st =
     (if mod1 \<noteq> mod2
      then case processRemoteBayesPair mod1 mod2 st of
             Inl err \<Rightarrow> Inl err
           | Inr (res, st') \<Rightarrow>
               (case map_of models_points res of
                  None \<Rightarrow> Inl KeyError
                | Some v \<Rightarrow> compare_pairs rest (AList.update res (v + 1) models_points) st')
      else compare_pairs rest models_points st)"

fun max_list :: "nat list \<Rightarrow> nat" where
  "max_list [] = 0"
| "max_list (x # xs) = max x (max_list xs)"

definition max_points_branches :: "(int \<times> nat) list \<Rightarrow> int list" where
  "max_points_branches models_points =
     (let max_points = max_list (map snd models_points)
      in map fst (filter (\<lambda>kv. snd kv = max_points) models_points))"

definition get_pairwise_bayes_factor :: "worker \<Rightarrow> int \<Rightarrow> int \<Rightarrow> qmla \<Rightarrow> py_error + qmla" where
  "get_pairwise_bayes_factor w model_a_id model_b_id st =
     (let unique_id = unique_model_pair_identifier model_a_id model_b_id;
          st1 = (if unique_id \<notin> set (bayes_factor_pair_computed st)
                 then st\<lparr>bayes_factor_pair_computed := bayes_factor_pair_computed st @ [unique_id]\<rparr>
                 else st)
      in case w (jobs_enqueued st1) unique_id of
           None \<Rightarrow> Inl (NameError ''Remote QML failure'')
         | Some r \<Rightarrow>
             Inr (st1\<lparr>bayes_factors_db := (bayes_factors_db st1)(unique_id \<mapsto> r),
                      jobs_enqueued := Suc (jobs_enqueued st1)\<rparr>))"

fun request_pairs :: "worker \<Rightarrow> bool \<Rightarrow> (int \<times> int) list \<Rightarrow> qmla \<Rightarrow> py_error + qmla" where
  "request_pairs w recompute [] st = Inr st"
| "request_pairs w recompute ((a, b) # rest) st =
     (if a \<noteq> b \<and> (unique_model_pair_identifier a b \<notin> set (bayes_factor_pair_computed st) \<or> recompute)
      then case get_pairwise_bayes_factor w a b st of
             Inl err \<Rightarrow> Inl err
           | Inr st' \<Rightarrow> request_pairs w recompute rest st'
      else request_pairs w recompute rest st)"

definition get_bayes_factors_from_list :: "worker \<Rightarrow> int list \<Rightarrow> bool \<Rightarrow> qmla \<Rightarrow> py_error + qmla" where
  "get_bayes_factors_from_list w model_id_list recompute st =
     request_pairs w recompute (index_pairs model_id_list) st"

definition model_name_from_id :: "qmla \<Rightarrow> int \<Rightarrow> py_error + string" where
  "model_name_from_id st model_id =
     (case filter (\<lambda>r. ModelID r = model_id) (db st) of
        [r] \<Rightarrow> Inr (Name r)
      | _ \<Rightarrow> Inl ValueError)"

fun compare_models_from_list :: "nat \<Rightarrow> worker \<Rightarrow> int list \<Rightarrow> qmla \<Rightarrow> py_error + int \<times> qmla" where
  "compare_models_from_list 0 w model_list st = Inl RecursionError"
| "compare_models_from_list (Suc depth) w model_list st =
     (case compare_pairs (index_pairs model_list) (init_points model_list) st of
        Inl err \<Rightarrow> Inl err
      | Inr (models_points, st1) \<Rightarrow>
          if models_points = [] then Inl ValueError
          else
            let max_points_branches = max_points_branches models_points
            in if 1 < length max_points_branches
               then if list_ex (\<lambda>i. model_name_from_id st1 i = Inl ValueError) max_points_branches
                    then Inl ValueError
                    else case get_bayes_factors_from_list w max_points_branches True st1 of
                           Inl err \<Rightarrow> Inl err
                         | Inr st2 \<Rightarrow>
                             (case compare_models_from_list depth w max_points_branches st2 of
                                Inl err \<Rightarrow> Inl err
                              | Inr (champ_id, st3) \<Rightarrow>
                                  (case model_name_id_map st3 champ_id of
                                     None \<Rightarrow> Inl KeyError
                                   | Some champ_name \<Rightarrow> Inr (champ_id, st3)))
               else
                 let champ_id = hd max_points_branches
                 in case model_name_id_map st1 champ_id of
                      None \<Rightarrow> Inl KeyError
                    | Some champ_name \<Rightarrow> Inr (champ_id, st1))"

text \<open>
  \<open>compare_all_models_in_branch\<close>, in four parts. First the champion: the holder of the
  maximal point count, or, when several models hold it, the result of
  \<open>compare_models_from_list\<close> on them after their ratios have been requested again.
\<close>

definition branch_champion ::
  "nat \<Rightarrow> worker \<Rightarrow> (int \<times> nat) list \<Rightarrow> qmla \<Rightarrow> py_error + int \<times> qmla" where
  "branch_champion depth w models_points st =
     (let max_points_branches = max_points_branches models_points
      in if 1 < length max_points_branches
         then case get_bayes_factors_from_list w max_points_branches True st of
                Inl err \<Rightarrow> Inl err
              | Inr st' \<Rightarrow> compare_models_from_list depth w max_points_branches st'
         else Inr (hd max_points_branches, st))"

text \<open>
  Then the champion is recorded (\<open>BranchChampions\<close>, \<open>ActiveBranchChampList\<close>,
  \<open>BranchChampsByNumQubits\<close>), every model of the branch is set \<open>Deactivated\<close> and the
  champion \<open>Active\<close>.
\<close>

definition record_champion :: "int \<Rightarrow> int list \<Rightarrow> int \<Rightarrow> qmla \<Rightarrow> py_error + qmla" where
  "record_champion branchID active_models_in_branch champ_id st =
     (case model_name_id_map st champ_id of
        None \<Rightarrow> Inl KeyError
      | Some champ_name \<Rightarrow>
     (case get_num_qubits champ_name of
        Inl err \<Rightarrow> Inl err
      | Inr champ_num_qubits \<Rightarrow>
     let st1 = st\<lparr>BranchChampions := AList.update branchID champ_id (BranchChampions st),
                  ActiveBranchChampList :=
                    (if champ_id \<notin> set (ActiveBranchChampList st)
                     then ActiveBranchChampList st @ [champ_id]
                     else ActiveBranchChampList st)\<rparr>
     in
     (case Branchget_growth_rule st1 branchID of
        None \<Rightarrow> Inl KeyError
      | Some growth_rule \<Rightarrow>
     (case BranchChampsByNumQubits st1 growth_rule of
        None \<Rightarrow> Inl KeyError
      | Some by_qubits \<Rightarrow>
     let st2 = st1\<lparr>BranchChampsByNumQubits := (BranchChampsByNumQubits st1)(growth_rule \<mapsto>
                     (case map_of by_qubits champ_num_qubits of
                        Some names \<Rightarrow> AList.update champ_num_qubits (names @ [champ_name]) by_qubits
                      | None \<Rightarrow> AList.update champ_num_qubits [champ_name] by_qubits))\<rparr>;
         st3 = fold (\<lambda>model_id. update_model_record_id model_id ''Deactivated'')
                 active_models_in_branch st2
     in Inr (update_model_record_name champ_name ''Active'' st3)))))"

text \<open>
  The ranking \<open>sorted(models_points, key=models_points.get, reverse=True)\<close> is stored only
  while \<open>BranchBayesComputed[branchID]\<close> is \<open>False\<close>; the points are stored every time.
\<close>

definition ranked_model_list :: "(int \<times> nat) list \<Rightarrow> int list" where
  "ranked_model_list models_points =
     sort_key (\<lambda>k. - int (the (map_of models_points k))) (map fst models_points)"

definition record_ranking :: "int \<Rightarrow> (int \<times> nat) list \<Rightarrow> qmla \<Rightarrow> py_error + qmla" where
  "record_ranking branchID models_points st =
     (case BranchBayesComputed st branchID of
        None \<Rightarrow> Inl KeyError
      | Some computed \<Rightarrow>
          let st1 = (if computed = False
                     then st\<lparr>branch_rankings :=
                               (branch_rankings st)(branchID \<mapsto> ranked_model_list models_points),
                             BranchBayesComputed := (BranchBayesComputed st)(branchID \<mapsto> True)\<rparr>
                     else st)
          in Inr (st1\<lparr>branch_bayes_points := (branch_bayes_points st1)(branchID \<mapsto> models_points)\<rparr>))"

text \<open>
  On a ghost branch the losers are set \<open>Deactivated\<close> and taken off
  \<open>ActiveBranchChampList\<close> (\<open>list.remove\<close>, ignored when the model is not on it).
\<close>

definition deactivate_ghost_losers :: "int \<Rightarrow> int list \<Rightarrow> int \<Rightarrow> qmla \<Rightarrow> qmla" where
  "deactivate_ghost_losers branchID active_models_in_branch champ_id st =
     (if branchID \<in> set (ghost_branch_list st)
      then fold (\<lambda>losing_model_id s.
             (update_model_record_id losing_model_id ''Deactivated'' s)
               \<lparr>ActiveBranchChampList := remove1 losing_model_id (ActiveBranchChampList s)\<rparr>)
             (filter (\<lambda>m. m \<noteq> champ_id) (remdups active_models_in_branch)) st
      else st)"

definition compare_all_models_in_branch ::
  "nat \<Rightarrow> worker \<Rightarrow> int \<Rightarrow> qmla \<Rightarrow> py_error + ((int \<times> nat) list \<times> int) \<times> qmla" where
  "compare_all_models_in_branch depth w branchID st =
     (case BranchModelIds st branchID of
        None \<Rightarrow> Inl KeyError
      | Some active_models_in_branch \<Rightarrow>
     (case compare_pairs (index_pairs active_models_in_branch)
             (init_points active_models_in_branch) st of
        Inl err \<Rightarrow> Inl err
      | Inr (models_points, st1) \<Rightarrow>
     if models_points = [] then Inl ValueError
     else
     (case branch_champion depth w models_points st1 of
        Inl err \<Rightarrow> Inl err
      | Inr (champ_id, st2) \<Rightarrow>
     (case record_champion branchID active_models_in_branch champ_id st2 of
        Inl err \<Rightarrow> Inl err
      | Inr st3 \<Rightarrow>
     (case record_ranking branchID models_points st3 of
        Inl err \<Rightarrow> Inl err
      | Inr st4 \<Rightarrow>
          Inr ((models_points, champ_id),
               deactivate_ghost_losers branchID active_models_in_branch champ_id st4))))))"



section \<open>Initial state and example states\<close>

text \<open>
  The state after \<open>_setup_tree_and_growth_rules\<close> before any growth rule is set up: every
  dictionary and list is empty and the counters are 0. The two thresholds come from the
  controls (\<open>bayes_lower\<close>, \<open>bayes_upper\<close>).
\<close>

definition initial_qmla :: "rat \<Rightarrow> rat \<Rightarrow> qmla" where
  "initial_qmla bayes_lower bayes_upper =
     \<lparr>db = [], model_lists = Map.empty, model_name_id_map = Map.empty, true_model_name = [],
      TrueOpModelID = None, NumModels = 0, HighestModelID = 0, HighestBranchID = 0,
      BayesLower = bayes_lower, BayesUpper = bayes_upper, bayes_factor_pair_computed = [],
      BranchBayesComputed = Map.empty, NumModelsPerBranch = Map.empty,
      NumModelPairsPerBranch = Map.empty, BranchAllModelsLearned = Map.empty,
      BranchComparisonsComplete = Map.empty, Branchget_growth_rule = Map.empty,
      BranchNumModelsPreComputed = Map.empty, BranchModels = Map.empty,
      BranchPrecomputedModels = Map.empty, BranchModelIds = Map.empty, ModelsBranches = Map.empty,
      BranchChampions = [], BranchChampsByNumQubits = Map.empty, ActiveBranchChampList = [],
      branch_rankings = Map.empty, branch_bayes_points = Map.empty, ghost_branch_list = [],
      branch_parents = Map.empty, bayes_factors_db = Map.empty,
      growth_rules_list = [], jobs_enqueued = 0\<rparr>"

definition new_row :: "string \<Rightarrow> int \<Rightarrow> int \<Rightarrow> model_row" where
  "new_row name model_id branch =
     \<lparr>Name = name, ModelID = model_id, row_branchID = branch, Status = ''Active'',
      Completed = False, BayesFactors = []\<rparr>"

text \<open>
  A branch (id 1, growth rule \<open>g\<close>) of the three one-qubit models \<open>x\<close>, \<open>y\<close>, \<open>z\<close> with
  ids 0, 1, 2, all learned, with the given decisiveness threshold and evidence ratios.
\<close>

definition branch_of_three :: "rat \<Rightarrow> (int \<times> int \<rightharpoonup> rat) \<Rightarrow> qmla" where
  "branch_of_three threshold ratios =
     (initial_qmla threshold 100)
       \<lparr>db := [new_row ''x'' 0 1, new_row ''y'' 1 1, new_row ''z'' 2 1],
        model_name_id_map := [0 \<mapsto> ''x'', 1 \<mapsto> ''y'', 2 \<mapsto> ''z''],
        NumModels := 3, HighestModelID := 3, HighestBranchID := 1,
        BranchBayesComputed := [1 \<mapsto> False],
        NumModelsPerBranch := [1 \<mapsto> 3],
        NumModelPairsPerBranch := [1 \<mapsto> PyFloat (Double (3 * 2 ^ 51) 1)],
        BranchAllModelsLearned := [1 \<mapsto> True],
        BranchComparisonsComplete := [1 \<mapsto> True],
        Branchget_growth_rule := [1 \<mapsto> ''g''],
        BranchNumModelsPreComputed := [1 \<mapsto> 0],
        BranchModels := [1 \<mapsto> [''x'', ''y'', ''z'']],
        BranchPrecomputedModels := [1 \<mapsto> []],
        BranchModelIds := [1 \<mapsto> [0, 1, 2]],
        ModelsBranches := [0 \<mapsto> 1, 1 \<mapsto> 1, 2 \<mapsto> 1],
        BranchChampsByNumQubits := [''g'' \<mapsto> []],
        growth_rules_list := [''g''],
        bayes_factor_pair_computed := [(0, 1), (0, 2), (1, 2)],
        bayes_factors_db := ratios\<rparr>"


definition cyclic_tie :: "qmla \<Rightarrow> bool" where
  "cyclic_tie st =
     (map ModelID (db st) = [0, 1, 2] \<and> BayesLower st = 5 \<and>
      bayes_factors_db st (0, 1) = Some 10 \<and>
      bayes_factors_db st (0, 2) = Some (1 / 10) \<and>
      bayes_factors_db st (1, 2) = Some 10)"

section \<open>Final reconciliation: parent and child champions\<close>














section \<open>Pair count: results\<close>

lemma bit_length_numeral [simp]:
  "bit_length 0 = 0"
  "bit_length 1 = 1"
  "bit_length (numeral (Num.Bit0 k)) = Suc (bit_length (numeral k))"
  "bit_length (numeral (Num.Bit1 k)) = Suc (bit_length (numeral k))"
  by (simp_all add: bit_length.simps [of 0] bit_length.simps [of 1]
      bit_length.simps [of "numeral (Num.Bit0 k)"] bit_length.simps [of "numeral (Num.Bit1 k)"])

lemma num_pairs_in_list_le_1: "n \<le> 1 \<Longrightarrow> num_pairs_in_list n = Inr (PyInt 0)"
  by (simp add: num_pairs_in_list_def)

text \<open>
  C5. The pair count of a branch with \<open>n\<close> models should be exactly \<open>n * (n - 1) / 2\<close>.
  For a branch of 23 models the function returns the float next above 253
  (Python prints it as 253.00000000000003), because \<open>23! / 2\<close> and \<open>21!\<close> are rounded
  to 53 bits before they are divided.
\<close>

theorem num_pairs_in_list_23:
  "map_sum id py_val (num_pairs_in_list 23) = Inr (253 + 1 / 2 ^ 45) \<and>
   map_sum id py_val (num_pairs_in_list 23) \<noteq> Inr (of_int (23 * (23 - 1) div 2))"
  by (simp add: num_pairs_in_list_def factorial_def int_truediv_def float_truediv_int_def
      nearest_double_def floor_log2_def round_half_even_def Let_def py_val_def double_val_def
      fact_numeral)

section \<open>Canonical names: results\<close>

text \<open>
  C10. \<open>alph\<close> should be idempotent. Where the longest run of \<open>P\<close> is longer than one and
  longer than the runs of \<open>T\<close> and \<open>M\<close>, the code sorts the pieces first and alphabetises
  each piece afterwards, so the result need not be sorted: for the two-qubit name
  \<open>xPyTzPPyPaTz\<close> a second application of \<open>alph\<close> changes the name again (and so it does
  for the one-qubit name \<open>xPyPPyPa\<close>).
\<close>

theorem alph_not_idempotent:
  "alph ''xPyTzPPyPaTz'' = ''xPyTzPPaPyTz'' \<and>
   alph (alph ''xPyTzPPyPaTz'') = ''aPyTzPPxPyTz'' \<and>
   alph ''xPyPPyPa'' = ''xPyPPaPy'' \<and>
   alph (alph ''xPyPPyPa'') = ''aPyPPxPy''"
  by code_simp

section \<open>The comparison of a pair\<close>





lemma processRemoteBayesPair_scores:
  assumes "processRemoteBayesPair a b st = Inr (champ, st')"
  shows "\<exists>r. bayes_factors_db st (min a b, max a b) = Some r \<and> r \<noteq> 0 \<and>
           st' = record_bayes_factor (max a b) (min a b) (1 / r) (record_bayes_factor (min a b) (max a b) r st) \<and>
           find (\<lambda>r. ModelID r = min a b) (db st) \<noteq> None \<and>
           find (\<lambda>r. ModelID r = max a b) (db st) \<noteq> None"
  using assms
  unfolding processRemoteBayesPair_def get_model_storage_instance_by_id_def unique_model_pair_identifier_def Let_def
  by (auto split: option.splits if_splits sum.splits)




lemma processRemoteBayesPair_point:
  assumes "processRemoteBayesPair a b st = Inr (champ, st')"
  shows "\<exists>r. bayes_factors_db st (min a b, max a b) = Some r \<and>
           (if BayesLower st < r then champ = min a b
            else r < 1 / BayesLower st \<and> champ = max a b)"
  using assms
  unfolding processRemoteBayesPair_def get_model_storage_instance_by_id_def
    unique_model_pair_identifier_def Let_def
  by (auto split: option.splits if_splits sum.splits dest: find_Some_iff [THEN iffD1])

lemma processRemoteBayesPair_inconclusive:
  assumes "find (\<lambda>r. ModelID r = min a b) (db st) \<noteq> None"
    and "find (\<lambda>r. ModelID r = max a b) (db st) \<noteq> None"
    and "bayes_factors_db st (min a b, max a b) = Some r"
    and "1 / BayesLower st \<le> r" and "r \<le> BayesLower st"
  shows "processRemoteBayesPair a b st = Inl UnboundLocalError \<or>
         processRemoteBayesPair a b st = Inl ZeroDivisionError"
  using assms
  unfolding processRemoteBayesPair_def get_model_storage_instance_by_id_def
    unique_model_pair_identifier_def Let_def
  by (auto split: option.splits)

text \<open>
  C1. In the scenario of the specification (a branch of three models, threshold 5,
  ratios 10 for the pair (0, 1), 1/10 for (0, 2) and 2 for (1, 2)) the third pair is
  inconclusive. \<open>processRemoteBayesPair\<close> binds \<open>champ\<close> only in its two decisive
  branches, so \<open>return champ\<close> raises \<open>UnboundLocalError\<close> and the tournament of the branch
  ends with that exception: no points, no champion.
\<close>

theorem compare_all_models_in_branch_inconclusive_pair:
  "map_sum id fst
     (processRemoteBayesPair 1 2
        (branch_of_three 5 [(0, 1) \<mapsto> 10, (0, 2) \<mapsto> 1 / 10, (1, 2) \<mapsto> 2])) =
     Inl UnboundLocalError \<and>
   map_sum id fst
     (compare_all_models_in_branch 10 (\<lambda>n p. None) 1
        (branch_of_three 5 [(0, 1) \<mapsto> 10, (0, 2) \<mapsto> 1 / 10, (1, 2) \<mapsto> 2])) =
     Inl UnboundLocalError"
  by (simp add: compare_all_models_in_branch_def branch_of_three_def initial_qmla_def new_row_def
      processRemoteBayesPair_def get_model_storage_instance_by_id_def
      unique_model_pair_identifier_def record_bayes_factor_def init_points_def Let_def)

section \<open>The frozen ranking\<close>

lemma record_bayes_factor_rankings [simp]:
  "branch_rankings (record_bayes_factor m other v st) = branch_rankings st"
  "BranchBayesComputed (record_bayes_factor m other v st) = BranchBayesComputed st"
  by (simp_all add: record_bayes_factor_def)

lemma update_model_record_rankings [simp]:
  "branch_rankings (update_model_record_id m v st) = branch_rankings st"
  "BranchBayesComputed (update_model_record_id m v st) = BranchBayesComputed st"
  "branch_rankings (update_model_record_name n v st) = branch_rankings st"
  "BranchBayesComputed (update_model_record_name n v st) = BranchBayesComputed st"
  by (simp_all add: update_model_record_id_def update_model_record_name_def)

lemma processRemoteBayesPair_rankings:
  assumes "processRemoteBayesPair a b st = Inr (champ, st')"
  shows "branch_rankings st' = branch_rankings st \<and> BranchBayesComputed st' = BranchBayesComputed st"
  using processRemoteBayesPair_scores [OF assms] by auto

lemma compare_pairs_rankings:
  "compare_pairs ps pts st = Inr (pts', st') \<Longrightarrow>
   branch_rankings st' = branch_rankings st \<and> BranchBayesComputed st' = BranchBayesComputed st"
proof (induction ps arbitrary: pts st)
  case Nil
  then show ?case by simp
next
  case (Cons p ps)
  obtain mod1 mod2 where p: "p = (mod1, mod2)" by (cases p)
  show ?case
  proof (cases "mod1 = mod2")
    case True
    with Cons p show ?thesis by simp
  next
    case False
    with Cons.prems p obtain res st1 v where
      call: "processRemoteBayesPair mod1 mod2 st = Inr (res, st1)"
      and rest: "compare_pairs ps (AList.update res (v + 1) pts) st1 = Inr (pts', st')"
      by (auto split: sum.splits option.splits)
    from Cons.IH [OF rest] processRemoteBayesPair_rankings [OF call] show ?thesis by simp
  qed
qed

lemma get_pairwise_bayes_factor_rankings:
  "get_pairwise_bayes_factor w a b st = Inr st' \<Longrightarrow>
   branch_rankings st' = branch_rankings st \<and> BranchBayesComputed st' = BranchBayesComputed st"
  by (auto simp: get_pairwise_bayes_factor_def Let_def split: option.splits if_splits)

lemma request_pairs_rankings:
  "request_pairs w recompute ps st = Inr st' \<Longrightarrow>
   branch_rankings st' = branch_rankings st \<and> BranchBayesComputed st' = BranchBayesComputed st"
proof (induction ps arbitrary: st)
  case Nil
  then show ?case by simp
next
  case (Cons p ps)
  obtain a b where p: "p = (a, b)" by (cases p)
  show ?case
  proof (cases "a \<noteq> b \<and> (unique_model_pair_identifier a b \<notin> set (bayes_factor_pair_computed st) \<or> recompute)")
    case True
    with Cons.prems p obtain st1 where
      call: "get_pairwise_bayes_factor w a b st = Inr st1"
      and rest: "request_pairs w recompute ps st1 = Inr st'"
      by (auto split: sum.splits)
    from Cons.IH [OF rest] get_pairwise_bayes_factor_rankings [OF call] show ?thesis by simp
  next
    case False
    with Cons p show ?thesis by auto
  qed
qed

lemma compare_models_from_list_rankings:
  "compare_models_from_list depth w ms st = Inr (champ, st') \<Longrightarrow>
   branch_rankings st' = branch_rankings st \<and> BranchBayesComputed st' = BranchBayesComputed st"
proof (induction depth arbitrary: ms st)
  case 0
  then show ?case by simp
next
  case (Suc depth)
  from Suc.prems obtain pts st1 where
    cp: "compare_pairs (index_pairs ms) (init_points ms) st = Inr (pts, st1)"
    by (auto split: sum.splits)
  note f1 = compare_pairs_rankings [OF cp]
  show ?case
  proof (cases "1 < length (max_points_branches pts)")
    case True
    with Suc.prems cp obtain st2 where
      rq: "get_bayes_factors_from_list w (max_points_branches pts) True st1 = Inr st2"
      and rec: "compare_models_from_list depth w (max_points_branches pts) st2 = Inr (champ, st')"
      by (auto simp: Let_def split: sum.splits option.splits if_splits)
    from request_pairs_rankings [OF rq [unfolded get_bayes_factors_from_list_def]] Suc.IH [OF rec] f1
    show ?thesis by simp
  next
    case False
    with Suc.prems cp have "st' = st1"
      by (auto simp: Let_def split: sum.splits option.splits if_splits)
    with f1 show ?thesis by simp
  qed
qed

lemma branch_champion_rankings:
  assumes "branch_champion depth w pts st = Inr (champ, st')"
  shows "branch_rankings st' = branch_rankings st \<and> BranchBayesComputed st' = BranchBayesComputed st"
proof (cases "1 < length (max_points_branches pts)")
  case True
  with assms obtain st1 where
    rq: "get_bayes_factors_from_list w (max_points_branches pts) True st = Inr st1"
    and rec: "compare_models_from_list depth w (max_points_branches pts) st1 = Inr (champ, st')"
    by (auto simp: branch_champion_def Let_def split: sum.splits)
  from request_pairs_rankings [OF rq [unfolded get_bayes_factors_from_list_def]]
    compare_models_from_list_rankings [OF rec]
  show ?thesis by simp
next
  case False
  with assms show ?thesis by (auto simp: branch_champion_def Let_def)
qed

lemma fold_deactivate_rankings [simp]:
  "branch_rankings (fold (\<lambda>model_id. update_model_record_id model_id v) ms st) = branch_rankings st"
  "BranchBayesComputed (fold (\<lambda>model_id. update_model_record_id model_id v) ms st) = BranchBayesComputed st"
  by (induction ms arbitrary: st) simp_all

lemma record_champion_rankings:
  "record_champion branchID ms champ st = Inr st' \<Longrightarrow>
   branch_rankings st' = branch_rankings st \<and> BranchBayesComputed st' = BranchBayesComputed st"
  by (auto simp: record_champion_def Let_def split: option.splits sum.splits)

lemma deactivate_ghost_losers_rankings [simp]:
  "branch_rankings (deactivate_ghost_losers branchID ms champ st) = branch_rankings st"
  "BranchBayesComputed (deactivate_ghost_losers branchID ms champ st) = BranchBayesComputed st"
  "branch_bayes_points (deactivate_ghost_losers branchID ms champ st) = branch_bayes_points st"
proof -
  have "branch_rankings (fold (\<lambda>m s. (update_model_record_id m v s)
          \<lparr>ActiveBranchChampList := remove1 m (ActiveBranchChampList s)\<rparr>) xs s0) = branch_rankings s0 \<and>
        BranchBayesComputed (fold (\<lambda>m s. (update_model_record_id m v s)
          \<lparr>ActiveBranchChampList := remove1 m (ActiveBranchChampList s)\<rparr>) xs s0) = BranchBayesComputed s0 \<and>
        branch_bayes_points (fold (\<lambda>m s. (update_model_record_id m v s)
          \<lparr>ActiveBranchChampList := remove1 m (ActiveBranchChampList s)\<rparr>) xs s0) = branch_bayes_points s0"
    for v xs s0
    by (induction xs arbitrary: s0) (simp_all add: update_model_record_id_def)
  then show
    "branch_rankings (deactivate_ghost_losers branchID ms champ st) = branch_rankings st"
    "BranchBayesComputed (deactivate_ghost_losers branchID ms champ st) = BranchBayesComputed st"
    "branch_bayes_points (deactivate_ghost_losers branchID ms champ st) = branch_bayes_points st"
    by (simp_all add: deactivate_ghost_losers_def)
qed

text \<open>
  C6. An evaluation of a branch that returns stores the ranking only when the branch has
  not been ranked before (\<open>BranchBayesComputed\<close> is \<open>False\<close>) and sets the flag; once the
  flag is set, an evaluation leaves the stored ranking as it is, whatever the tie-break
  recursion did, and the flag stays set, so this holds for every later evaluation. The
  rankings of the other branches are never touched. The points of the branch are stored
  anew by every evaluation.
\<close>

theorem branch_ranking_frozen:
  assumes "compare_all_models_in_branch depth w branchID st = Inr ((models_points, champ_id), st')"
  shows "(BranchBayesComputed st branchID = Some True \<longrightarrow>
            branch_rankings st' branchID = branch_rankings st branchID) \<and>
         (BranchBayesComputed st branchID = Some False \<longrightarrow>
            branch_rankings st' branchID = Some (ranked_model_list models_points)) \<and>
         BranchBayesComputed st' branchID = Some True \<and>
         (\<forall>b. b \<noteq> branchID \<longrightarrow> branch_rankings st' b = branch_rankings st b) \<and>
         branch_bayes_points st' branchID = Some models_points"
proof -
  from assms obtain ms st1 st2 st3 st4 where
    cp: "compare_pairs (index_pairs ms) (init_points ms) st = Inr (models_points, st1)"
    and bc: "branch_champion depth w models_points st1 = Inr (champ_id, st2)"
    and rc: "record_champion branchID ms champ_id st2 = Inr st3"
    and rr: "record_ranking branchID models_points st3 = Inr st4"
    and st': "st' = deactivate_ghost_losers branchID ms champ_id st4"
    by (auto simp: compare_all_models_in_branch_def split: option.splits sum.splits if_splits)
  from compare_pairs_rankings [OF cp] branch_champion_rankings [OF bc] record_champion_rankings [OF rc]
  have same: "branch_rankings st3 = branch_rankings st" "BranchBayesComputed st3 = BranchBayesComputed st"
    by simp_all
  from rr same show ?thesis
    unfolding st'
    by (auto simp: record_ranking_def Let_def split: option.splits if_splits)
qed

theorem branch_ranking_frozen_witness:
  "(\<exists>st'. compare_all_models_in_branch 10 (\<lambda>n p. None) 1
            (branch_of_three 5 [(0, 1) \<mapsto> 10, (0, 2) \<mapsto> 1 / 10, (1, 2) \<mapsto> 1 / 20]) =
            Inr (([(0, 1), (1, 0), (2, 2)], 2), st') \<and>
          branch_rankings st' 1 = Some [2, 0, 1] \<and> BranchBayesComputed st' 1 = Some True) \<and>
   (\<exists>st'. compare_all_models_in_branch 10 (\<lambda>n p. None) 1
            ((branch_of_three 5 [(0, 1) \<mapsto> 10, (0, 2) \<mapsto> 10, (1, 2) \<mapsto> 10])
               \<lparr>BranchBayesComputed := [1 \<mapsto> True], branch_rankings := [1 \<mapsto> [2, 0, 1]]\<rparr>) =
            Inr (([(0, 2), (1, 1), (2, 0)], 0), st') \<and>
          branch_rankings st' 1 = Some [2, 0, 1] \<and> BranchBayesComputed st' 1 = Some True \<and>
          branch_bayes_points st' 1 = Some [(0, 2), (1, 1), (2, 0)])"
proof -
  note defs = compare_all_models_in_branch_def branch_champion_def record_champion_def
    record_ranking_def deactivate_ghost_losers_def branch_of_three_def initial_qmla_def new_row_def
    processRemoteBayesPair_def get_model_storage_instance_by_id_def
    unique_model_pair_identifier_def record_bayes_factor_def init_points_def
    max_points_branches_def get_num_qubits_def get_constituent_names_from_name_def str_in_def
    special_term_def count_str.simps split_str.simps find_max_loop.simps Let_def
  let ?s1 = "branch_of_three 5 [(0, 1) \<mapsto> 10, (0, 2) \<mapsto> 1 / 10, (1, 2) \<mapsto> 1 / 20]"
  let ?s2 = "(branch_of_three 5 [(0, 1) \<mapsto> 10, (0, 2) \<mapsto> 10, (1, 2) \<mapsto> 10])
               \<lparr>BranchBayesComputed := [1 \<mapsto> True], branch_rankings := [1 \<mapsto> [2, 0, 1]]\<rparr>"
  have "\<exists>st'. compare_all_models_in_branch 10 (\<lambda>n p. None) 1 ?s1 =
          Inr (([(0, 1), (1, 0), (2, 2)], 2), st')"
    by (simp add: defs)
  then obtain st1 where c1: "compare_all_models_in_branch 10 (\<lambda>n p. None) 1 ?s1 =
          Inr (([(0, 1), (1, 0), (2, 2)], 2), st1)" by blast
  have f1: "BranchBayesComputed ?s1 1 = Some False"
    by (simp add: branch_of_three_def initial_qmla_def)
  have r1: "ranked_model_list [(0, 1), (1, 0), (2, 2)] = [2, 0, 1]"
    by (simp add: ranked_model_list_def)
  have "\<exists>st'. compare_all_models_in_branch 10 (\<lambda>n p. None) 1 ?s2 =
          Inr (([(0, 2), (1, 1), (2, 0)], 0), st')"
    by (simp add: defs)
  then obtain st2 where c2: "compare_all_models_in_branch 10 (\<lambda>n p. None) 1 ?s2 =
          Inr (([(0, 2), (1, 1), (2, 0)], 0), st2)" by blast
  have f2: "BranchBayesComputed ?s2 1 = Some True" "branch_rankings ?s2 1 = Some [2, 0, 1]"
    by simp_all
  from branch_ranking_frozen [OF c1] f1 r1
  have a: "branch_rankings st1 1 = Some [2, 0, 1] \<and> BranchBayesComputed st1 1 = Some True"
    by simp
  from branch_ranking_frozen [OF c2] f2
  have b: "branch_rankings st2 1 = Some [2, 0, 1] \<and> BranchBayesComputed st2 1 = Some True \<and>
           branch_bayes_points st2 1 = Some [(0, 2), (1, 1), (2, 0)]"
    by simp
  from a b c1 c2 show ?thesis by blast
qed

section \<open>The tie-break recursion\<close>



lemma map_ModelID_update_first:
  "(\<And>r. ModelID (f r) = ModelID r) \<Longrightarrow> map ModelID (update_first P f xs) = map ModelID xs"
  by (induction xs) auto

lemma cyclic_tie_record_bayes_factor [simp]:
  "cyclic_tie (record_bayes_factor m other v st) = cyclic_tie st"
  by (simp add: cyclic_tie_def record_bayes_factor_def map_ModelID_update_first)





lemma compare_models_from_list_step:
  assumes "compare_pairs (index_pairs model_list) (init_points model_list) st = Inr (models_points, st1)"
  shows "compare_models_from_list (Suc depth) w model_list st =
     (if models_points = [] then Inl ValueError
      else if 1 < length (max_points_branches models_points)
      then if list_ex (\<lambda>i. model_name_from_id st1 i = Inl ValueError)
                (max_points_branches models_points)
           then Inl ValueError
           else case get_bayes_factors_from_list w (max_points_branches models_points) True st1 of
                  Inl err \<Rightarrow> Inl err
                | Inr st2 \<Rightarrow>
                    (case compare_models_from_list depth w (max_points_branches models_points) st2 of
                       Inl err \<Rightarrow> Inl err
                     | Inr (champ_id, st3) \<Rightarrow>
                         (case model_name_id_map st3 champ_id of
                            None \<Rightarrow> Inl KeyError
                          | Some champ_name \<Rightarrow> Inr (champ_id, st3)))
      else case model_name_id_map st1 (hd (max_points_branches models_points)) of
             None \<Rightarrow> Inl KeyError
           | Some champ_name \<Rightarrow> Inr (hd (max_points_branches models_points), st1))"
  by (simp only: compare_models_from_list.simps assms sum.case prod.case Let_def)







lemma compare_models_from_list_unique:
  assumes "compare_pairs (index_pairs model_list) (init_points model_list) st = Inr (models_points, st1)"
    and "max_points_branches models_points = [champ]"
    and "model_name_id_map st1 champ = Some champ_name"
  shows "compare_models_from_list (Suc depth) w model_list st = Inr (champ, st1)"
proof -
  from assms(2) have "models_points \<noteq> []" by (auto simp: max_points_branches_def)
  then show ?thesis
    by (subst compare_models_from_list_step [OF assms(1)]) (simp add: assms(2,3))
qed




section \<open>Parent and child champions: results\<close>





definition collapse_frame :: "qmla \<Rightarrow> qmla \<Rightarrow> bool" where
  "collapse_frame st st' =
     (ModelsBranches st' = ModelsBranches st \<and> branch_parents st' = branch_parents st \<and>
      BranchChampions st' = BranchChampions st \<and> bayes_factors_db st' = bayes_factors_db st \<and>
      ActiveBranchChampList st' = ActiveBranchChampList st \<and>
      Branchget_growth_rule st' = Branchget_growth_rule st \<and>
      growth_rules_list st' = growth_rules_list st)"

lemma collapse_frame_refl [simp]: "collapse_frame st st"
  by (simp add: collapse_frame_def)



lemma collapse_frame_steps [simp]:
  "collapse_frame st (record_bayes_factor a b v st)"
  "collapse_frame st (update_model_record_id a s st)"
  by (simp_all add: collapse_frame_def record_bayes_factor_def update_model_record_id_def)














end
